theory Spec2Isabelle
  imports Main "HOL-Library.Mapping" "HOL-Library.Product_Lexorder"
begin

section \<open>Data model of \<^verbatim>\<open>src/blockchain.js\<close>\<close>

text \<open>
  Block, transaction and script identifiers are 32-byte values that the source
  handles as hex strings. A fixed-width identifier is represented here by the number
  its bytes denote (big-endian), so that the byte order of encoded keys is the numeric
  order; \<^verbatim>\<open>ZERO64\<close> (64 hex zeros) is the number 0. JavaScript numbers that
  the code subtracts (heights, values, sizes, limits, offsets) are \<open>int\<close>; array
  positions (\<^verbatim>\<open>vin\<close>, \<^verbatim>\<open>vout\<close>) are \<open>nat\<close>.
\<close>

type_synonym hash = nat
type_synonym bytes = "nat list"

definition ZERO64 :: hash where
  "ZERO64 = 0"

text \<open>The pre-parsed block body the RPC collaborator hands over. The source's field
  \<^verbatim>\<open>input.vout\<close> is \<open>prevVout\<close>, \<^verbatim>\<open>output.value\<close> is \<open>amount\<close> and
  \<^verbatim>\<open>block.size\<close> is \<open>blockSize\<close> (the source's names are taken in HOL).\<close>

record txin =
  coinbase :: bool
  prevTxId :: hash
  prevVout :: nat

record txout =
  scId :: hash
  script :: bytes
  amount :: int
  vout :: nat

record tx =
  txId :: hash
  txBuffer :: bytes
  vsize :: int
  ins :: "txin list"
  outs :: "txout list"

record block =
  height :: int
  blockSize :: int
  previousblockhash :: hash
  nextblockhash :: "hash option"
  transactions :: "tx list"

subsection \<open>Index rows\<close>

record tip_val =
  tip_blockId :: hash
  tip_height :: int

record txo_val =
  txo_value :: int
  txo_script :: bytes

record spent_val =
  spent_txId :: hash
  spent_vin :: nat

record fee_summary =
  q1 :: int
  median :: int
  q3 :: int

record fee_val =
  fv_fees :: fee_summary
  fv_size :: int

text \<open>A ScriptIndex key is the tuple \<open>(scId, height, txId, vout)\<close>; its order is the
  lexicographic order of the tuple, which is what the iterator's range bounds rely on.\<close>

type_synonym sc_key = "hash \<times> int \<times> hash \<times> nat"

record store =
  tipIndex :: "(unit, tip_val) mapping"
  txIndex :: "(hash, int) mapping"
  txoIndex :: "(hash \<times> nat, txo_val) mapping"
  spentIndex :: "(hash \<times> nat, spent_val) mapping"
  scIndex :: "(sc_key, unit) mapping"
  feeIndex :: "(int, fee_val) mapping"

definition empty_store :: store where
  "empty_store = \<lparr> tipIndex = Mapping.empty, txIndex = Mapping.empty,
     txoIndex = Mapping.empty, spentIndex = Mapping.empty, scIndex = Mapping.empty,
     feeIndex = Mapping.empty \<rparr>"

datatype error = RpcFailure | HeightMismatch | KvFailure | MissingTxo hash nat

datatype event =
    Spent hash nat hash
  | Script hash hash bytes
  | Transaction hash bytes hash
  | Block hash int

section \<open>The key-value store the indexer writes through\<close>

text \<open>One operation of an atomic batch: \<^verbatim>\<open>atomic.put(type, key, value)\<close> or
  \<^verbatim>\<open>atomic.del(type, key)\<close>, one constructor per index type.\<close>

datatype op =
    PutSpent "hash \<times> nat" spent_val
  | PutSc sc_key
  | PutTxo "hash \<times> nat" txo_val
  | PutTx hash int
  | PutTip tip_val
  | PutFee int fee_val
  | DelSpent "hash \<times> nat"
  | DelSc sc_key
  | DelTxo "hash \<times> nat"
  | DelTx hash

fun apply_op :: "store \<Rightarrow> op \<Rightarrow> store" where
  "apply_op s (PutSpent k v) = s\<lparr>spentIndex := Mapping.update k v (spentIndex s)\<rparr>"
| "apply_op s (PutSc k) = s\<lparr>scIndex := Mapping.update k () (scIndex s)\<rparr>"
| "apply_op s (PutTxo k v) = s\<lparr>txoIndex := Mapping.update k v (txoIndex s)\<rparr>"
| "apply_op s (PutTx k v) = s\<lparr>txIndex := Mapping.update k v (txIndex s)\<rparr>"
| "apply_op s (PutTip v) = s\<lparr>tipIndex := Mapping.update () v (tipIndex s)\<rparr>"
| "apply_op s (PutFee k v) = s\<lparr>feeIndex := Mapping.update k v (feeIndex s)\<rparr>"
| "apply_op s (DelSpent k) = s\<lparr>spentIndex := Mapping.delete k (spentIndex s)\<rparr>"
| "apply_op s (DelSc k) = s\<lparr>scIndex := Mapping.delete k (scIndex s)\<rparr>"
| "apply_op s (DelTxo k) = s\<lparr>txoIndex := Mapping.delete k (txoIndex s)\<rparr>"
| "apply_op s (DelTx k) = s\<lparr>txIndex := Mapping.delete k (txIndex s)\<rparr>"

text \<open>Modelled from the spec: the \<^verbatim>\<open>db\<close> wrapper (\<^verbatim>\<open>atomic\<close>, \<^verbatim>\<open>get\<close>,
  \<^verbatim>\<open>iterator\<close>) is not among the sources. A commit applies the batch's operations in
  the order they were queued, all or none; \<open>fault\<close> is the error the engine reports for
  this commit, if any.\<close>

definition atomic_write :: "error option \<Rightarrow> op list \<Rightarrow> store \<Rightarrow> error + store" where
  "atomic_write fault ops s =
     (case fault of Some e \<Rightarrow> Inl e | None \<Rightarrow> Inr (foldl apply_op s ops))"

text \<open>Modelled from the spec: a point lookup; an absent key is a normal result
  (\<^verbatim>\<open>undefined\<close>), not an error.\<close>

definition db_get :: "error option \<Rightarrow> ('k, 'v) mapping \<Rightarrow> 'k \<Rightarrow> error + 'v option" where
  "db_get fault m k = (case fault of Some e \<Rightarrow> Inl e | None \<Rightarrow> Inr (Mapping.lookup m k))"

text \<open>Modelled from the spec: a forward traversal of the keys in \<open>[gte, lt)\<close> (no
  upper bound when \<open>lt\<close> is absent) in key order, bounded by \<open>limit\<close> entries. The spec
  does not say what a negative limit means; here it admits no entry. A fault
  \<open>(k, e)\<close> is an engine error \<open>e\<close> reported after \<open>k\<close> entries were handed over.\<close>

definition db_range :: "('k::linorder, 'v) mapping \<Rightarrow> 'k \<Rightarrow> 'k option \<Rightarrow> ('k \<times> 'v) list" where
  "db_range m gte lt =
     List.map_filter (\<lambda>k. map_option (Pair k) (Mapping.lookup m k))
       (filter (\<lambda>k. gte \<le> k \<and> (case lt of None \<Rightarrow> True | Some u \<Rightarrow> k < u))
         (Mapping.ordered_keys m))"

text \<open>Modelled from the spec: \<^verbatim>\<open>db.iterator(type, {gte, lt, limit}, forEach, done)\<close>
  hands the entries of the range to \<^verbatim>\<open>forEach\<close> one by one, at most \<open>limit\<close> of
  them, and then calls \<^verbatim>\<open>done(err)\<close>; the result is the entries handed over and
  the error.\<close>

definition db_iterator ::
  "(nat \<times> error) option \<Rightarrow> ('k::linorder, 'v) mapping \<Rightarrow> 'k \<Rightarrow> 'k option \<Rightarrow> int
     \<Rightarrow> ('k \<times> 'v) list \<times> error option" where
  "db_iterator fault m gte lt limit =
     (let rows = take (nat limit) (db_range m gte lt)
      in case fault of None \<Rightarrow> (rows, None) | Some (k, e) \<Rightarrow> (take k rows, Some e))"

section \<open>CONNECT\<close>

text \<open>The engine errors one CONNECT call may meet: at the primary commit, at a
  TxoIndex lookup of the fee pass, at the fee commit.\<close>

record faults =
  primaryWrite :: "error option"
  txoRead :: "hash \<times> nat \<Rightarrow> error option"
  feeWrite :: "error option"

definition no_faults :: faults where
  "no_faults = \<lparr> primaryWrite = None, txoRead = (\<lambda>_. None), feeWrite = None \<rparr>"

text \<open>The body of \<^verbatim>\<open>transactions.forEach\<close> in \<^verbatim>\<open>connect\<close>: the batch operations
  and the queued events of one transaction, in the order the loops produce them.
  \<^verbatim>\<open>ins.forEach((input, vin) => ...)\<close> numbers the inputs by position; the output
  loop takes \<^verbatim>\<open>vout\<close> from the output itself.\<close>

definition connect_tx_ops :: "int \<Rightarrow> tx \<Rightarrow> op list" where
  "connect_tx_ops h t =
     concat (map (\<lambda>(vin, i). if coinbase i then []
                   else [PutSpent (prevTxId i, prevVout i) \<lparr>spent_txId = txId t, spent_vin = vin\<rparr>])
               (enumerate 0 (ins t)))
     @ concat (map (\<lambda>out. [PutSc (scId out, h, txId t, vout out),
                            PutTxo (txId t, vout out) \<lparr>txo_value = amount out, txo_script = script out\<rparr>])
               (outs t))
     @ [PutTx (txId t) h]"

definition connect_tx_events :: "hash \<Rightarrow> tx \<Rightarrow> event list" where
  "connect_tx_events blockId t =
     concat (map (\<lambda>i. if coinbase i then [] else [Spent (prevTxId i) (prevVout i) (txId t)]) (ins t))
     @ map (\<lambda>out. Script (scId out) (txId t) (txBuffer t)) (outs t)
     @ [Transaction (txId t) (txBuffer t) blockId]"

definition connect_ops :: "hash \<Rightarrow> int \<Rightarrow> block \<Rightarrow> op list" where
  "connect_ops blockId h b =
     concat (map (connect_tx_ops h) (transactions b))
     @ [PutTip \<lparr>tip_blockId = blockId, tip_height = h\<rparr>]"

definition connect_events :: "hash \<Rightarrow> int \<Rightarrow> block \<Rightarrow> event list" where
  "connect_events blockId h b =
     concat (map (connect_tx_events blockId) (transactions b)) @ [Block blockId h]"

subsection \<open>The fee summary\<close>

text \<open>\<^verbatim>\<open>box\<close>: \<^verbatim>\<open>(data.length / 4) | 0\<close> is the floor of a non-negative quotient
  below \<open>2^31\<close>, that is \<open>length data div 4\<close>.\<close>

definition box :: "int list \<Rightarrow> fee_summary" where
  "box data =
     (if length data = 0 then \<lparr>q1 = 0, median = 0, q3 = 0\<rparr>
      else let quarter = length data div 4; midpoint = length data div 2
           in \<lparr>q1 = data ! quarter, median = data ! midpoint, q3 = data ! (midpoint + quarter)\<rparr>)"

text \<open>The sub-tasks of one transaction: each non-coinbase input's TXO is read and its
  value added to \<^verbatim>\<open>inAccum\<close>. \<^verbatim>\<open>run-parallel\<close> reports one failing task's error;
  the model reports the first in input order.\<close>

fun sum_inputs :: "(hash \<times> nat \<Rightarrow> error option) \<Rightarrow> store \<Rightarrow> txin list \<Rightarrow> error + int" where
  "sum_inputs rd s [] = Inr 0"
| "sum_inputs rd s (i # is) =
     (case db_get (rd (prevTxId i, prevVout i)) (txoIndex s) (prevTxId i, prevVout i) of
        Inl e \<Rightarrow> Inl e
      | Inr None \<Rightarrow> Inl (MissingTxo (prevTxId i) (prevVout i))
      | Inr (Some txo) \<Rightarrow>
          (case sum_inputs rd s is of Inl e \<Rightarrow> Inl e | Inr acc \<Rightarrow> Inr (txo_value txo + acc)))"

text \<open>One task of \<^verbatim>\<open>connect2ndOrder\<close>: a transaction with a coinbase input
  contributes the rate 0 and reads nothing; otherwise
  \<^verbatim>\<open>Math.floor((inAccum - outAccum) / vsize)\<close>, which is \<open>div\<close> on \<open>int\<close> for a
  non-zero \<^verbatim>\<open>vsize\<close> (a zero \<^verbatim>\<open>vsize\<close> gives a non-finite rate in the source and is
  outside this model).\<close>

definition tx_feeRate :: "(hash \<times> nat \<Rightarrow> error option) \<Rightarrow> store \<Rightarrow> tx \<Rightarrow> error + int" where
  "tx_feeRate rd s t =
     (if list_ex coinbase (ins t) then Inr 0
      else case sum_inputs rd s (ins t) of
             Inl e \<Rightarrow> Inl e
           | Inr inAccum \<Rightarrow> Inr ((inAccum - sum_list (map amount (outs t))) div vsize t))"

fun feeRates :: "(hash \<times> nat \<Rightarrow> error option) \<Rightarrow> store \<Rightarrow> tx list \<Rightarrow> error + int list" where
  "feeRates rd s [] = Inr []"
| "feeRates rd s (t # ts) =
     (case tx_feeRate rd s t of
        Inl e \<Rightarrow> Inl e
      | Inr r \<Rightarrow> (case feeRates rd s ts of Inl e \<Rightarrow> Inl e | Inr rs \<Rightarrow> Inr (r # rs)))"

definition connect2ndOrder :: "faults \<Rightarrow> store \<Rightarrow> hash \<Rightarrow> block \<Rightarrow> store \<times> error option" where
  "connect2ndOrder fs s blockId b =
     (case feeRates (txoRead fs) s (transactions b) of
        Inl e \<Rightarrow> (s, Some e)
      | Inr rates \<Rightarrow>
          (case atomic_write (feeWrite fs)
                  [PutFee (height b) \<lparr>fv_fees = box (sort rates), fv_size = blockSize b\<rparr>] s of
             Inl e \<Rightarrow> (s, Some e)
           | Inr s' \<Rightarrow> (s', None)))"

text \<open>What one call leaves behind: the store, the arguments of the completion callback
  (\<^verbatim>\<open>callback(err, block.nextblockhash)\<close>, or \<^verbatim>\<open>callback(err)\<close> on the early
  exits), and the events the deferred \<^verbatim>\<open>setTimeout\<close> body emits after the
  callback has returned.\<close>

record connect_result =
  cr_store :: store
  cr_err :: "error option"
  cr_next :: "hash option"
  cr_emitted :: "event list"

definition connect ::
  "(hash \<Rightarrow> error + block) \<Rightarrow> faults \<Rightarrow> store \<Rightarrow> hash \<Rightarrow> int \<Rightarrow> connect_result" where
  "connect rpc fs s blockId h =
     (case rpc blockId of
        Inl e \<Rightarrow> \<lparr>cr_store = s, cr_err = Some e, cr_next = None, cr_emitted = []\<rparr>
      | Inr b \<Rightarrow>
          if h \<noteq> height b
          then \<lparr>cr_store = s, cr_err = Some HeightMismatch, cr_next = None, cr_emitted = []\<rparr>
          else (case atomic_write (primaryWrite fs) (connect_ops blockId h b) s of
                  Inl e \<Rightarrow> \<lparr>cr_store = s, cr_err = Some e, cr_next = None, cr_emitted = []\<rparr>
                | Inr s1 \<Rightarrow>
                    (case connect2ndOrder fs s1 blockId b of
                       (s2, err) \<Rightarrow>
                         \<lparr>cr_store = s2, cr_err = err, cr_next = nextblockhash b,
                          cr_emitted = connect_events blockId h b\<rparr>)))"

section \<open>DISCONNECT\<close>

text \<open>The body of \<^verbatim>\<open>transactions.forEach\<close> in \<^verbatim>\<open>disconnect\<close>. Here the output
  loop is \<^verbatim>\<open>outs.forEach(({ scId }, vout) => ...)\<close>: \<^verbatim>\<open>vout\<close> is the position of
  the output in the array, not its field.\<close>

definition disconnect_tx_ops :: "int \<Rightarrow> tx \<Rightarrow> op list" where
  "disconnect_tx_ops h t =
     concat (map (\<lambda>i. if coinbase i then [] else [DelSpent (prevTxId i, prevVout i)]) (ins t))
     @ concat (map (\<lambda>(pos, out). [DelSc (scId out, h, txId t, pos), DelTxo (txId t, pos)])
               (enumerate 0 (outs t)))
     @ [DelTx (txId t)]"

definition disconnect_ops :: "block \<Rightarrow> op list" where
  "disconnect_ops b =
     concat (map (disconnect_tx_ops (height b)) (transactions b))
     @ [PutTip \<lparr>tip_blockId = previousblockhash b, tip_height = height b\<rparr>]"

definition disconnect ::
  "(hash \<Rightarrow> error + block) \<Rightarrow> error option \<Rightarrow> store \<Rightarrow> hash \<Rightarrow> store \<times> error option" where
  "disconnect rpc wfault s blockId =
     (case rpc blockId of
        Inl e \<Rightarrow> (s, Some e)
      | Inr b \<Rightarrow>
          (case atomic_write wfault (disconnect_ops b) s of
             Inl e \<Rightarrow> (s, Some e)
           | Inr s' \<Rightarrow> (s', None)))"

section \<open>Queries\<close>

text \<open>\<^verbatim>\<open>tip\<close> and \<^verbatim>\<open>tipHeight\<close> hand \<^verbatim>\<open>tip && tip.blockId\<close>
  (\<^verbatim>\<open>tip && tip.height\<close>) to the callback: an absent Tip row is an absent result.\<close>

definition tip :: "error option \<Rightarrow> store \<Rightarrow> error option \<times> hash option" where
  "tip fault s =
     (case db_get fault (tipIndex s) () of
        Inl e \<Rightarrow> (Some e, None)
      | Inr r \<Rightarrow> (None, map_option tip_blockId r))"

definition tipHeight :: "error option \<Rightarrow> store \<Rightarrow> error option \<times> int option" where
  "tipHeight fault s =
     (case db_get fault (tipIndex s) () of
        Inl e \<Rightarrow> (Some e, None)
      | Inr r \<Rightarrow> (None, map_option tip_height r))"

text \<open>What a call that takes a completion callback ends in: the callback is invoked
  with its arguments, or the body throws a \<^verbatim>\<open>TypeError\<close> (reading a property of
  \<^verbatim>\<open>undefined\<close>) and the callback is never invoked.\<close>

datatype 'a js_call = TypeError | Callback 'a

record fee_row =
  fr_height :: int
  fr_fees :: fee_summary
  fr_size :: int

text \<open>\<^verbatim>\<open>fees\<close> reads \<^verbatim>\<open>result.height\<close> of the Tip row without a guard. On a
  lookup error the callback gets the error alone (no list, written \<open>[]\<close> here).\<close>

definition fees ::
  "error option \<Rightarrow> (nat \<times> error) option \<Rightarrow> store \<Rightarrow> int
     \<Rightarrow> (error option \<times> fee_row list) js_call" where
  "fees gfault ifault s n =
     (case db_get gfault (tipIndex s) () of
        Inl e \<Rightarrow> Callback (Some e, [])
      | Inr None \<Rightarrow> TypeError
      | Inr (Some result) \<Rightarrow>
          (let maxHeight = tip_height result
           in case db_iterator ifault (feeIndex s) (maxHeight - (n - 1)) None n of
                (rows, err) \<Rightarrow>
                  Callback (err, map (\<lambda>(h, v). \<lparr>fr_height = h, fr_fees = fv_fees v,
                                                 fr_size = fv_size v\<rparr>) rows)))"

definition spentFromTxo :: "error option \<Rightarrow> store \<Rightarrow> hash \<times> nat \<Rightarrow> error + spent_val option" where
  "spentFromTxo fault s txo = db_get fault (spentIndex s) txo"

definition seenScriptId :: "(nat \<times> error) option \<Rightarrow> store \<Rightarrow> hash \<Rightarrow> error option \<times> bool" where
  "seenScriptId ifault s sc =
     (case db_iterator ifault (scIndex s) (sc, 0, ZERO64, 0)
             (Some (sc, 0xffffffff, ZERO64, 0)) 1 of
        (rows, err) \<Rightarrow> (err, rows \<noteq> []))"

text \<open>The \<^verbatim>\<open>limit\<close> argument of the script scans: left out, a number, or an array
  \<^verbatim>\<open>[offset, end]\<close>. \<^verbatim>\<open>limit || 10000\<close> replaces a missing or zero limit.\<close>

datatype limit_spec = Omitted | Limit int | Slice int int

definition or_10000 :: "int option \<Rightarrow> int" where
  "or_10000 l = (case l of None \<Rightarrow> 10000 | Some v \<Rightarrow> if v = 0 then 10000 else v)"

record txo_ref =
  r_txId :: hash
  r_vout :: nat
  r_scId :: hash
  r_height :: int

record position =
  p_height :: int
  p_offset :: int

text \<open>The iterator callback of \<^verbatim>\<open>__txosListByScriptId\<close> on one entry: the state is
  \<^verbatim>\<open>(results, count, maxHeight)\<close>.\<close>

fun walk_step :: "hash \<Rightarrow> int \<Rightarrow> txo_ref list \<times> int \<times> int \<Rightarrow> sc_key
    \<Rightarrow> txo_ref list \<times> int \<times> int" where
  "walk_step sc offset (results, count, maxHeight) (ksc, kh, kt, kv) =
     (if count + 1 < offset then (results, count + 1, maxHeight)
      else (results @ [\<lparr>r_txId = kt, r_vout = kv, r_scId = sc, r_height = kh\<rparr>],
            count + 1,
            if kh > maxHeight then kh else maxHeight))"

definition walk :: "hash \<Rightarrow> int \<Rightarrow> int \<Rightarrow> sc_key list \<Rightarrow> txo_ref list \<times> int \<times> int" where
  "walk sc offset fromHeight keys = foldl (walk_step sc offset) ([], 0, fromHeight) keys"

definition limit_offset :: "limit_spec \<Rightarrow> int" where
  "limit_offset limit = (case limit of Slice a b \<Rightarrow> a | _ \<Rightarrow> 0)"

definition limit_count :: "limit_spec \<Rightarrow> int" where
  "limit_count limit =
     or_10000 (case limit of Slice a b \<Rightarrow> Some (b - a) | Limit l \<Rightarrow> Some l | Omitted \<Rightarrow> None)"

text \<open>\<^verbatim>\<open>__txosListByScriptId\<close>: the callback gets the iterator's error, the results
  and the position \<^verbatim>\<open>{ height, offset: count }\<close>, where \<^verbatim>\<open>height\<close> at that place
  is the function's own argument.\<close>

definition txosListByScriptId ::
  "(nat \<times> error) option \<Rightarrow> store \<Rightarrow> hash \<Rightarrow> int \<Rightarrow> limit_spec
     \<Rightarrow> error option \<times> txo_ref list \<times> position" where
  "txosListByScriptId ifault s sc fromHeight limit =
     (case db_iterator ifault (scIndex s) (sc, fromHeight, ZERO64, 0)
             (Some (sc, 0xffffffff, ZERO64, 0)) (limit_count limit) of
        (rows, err) \<Rightarrow>
          (case walk sc (limit_offset limit) fromHeight (map fst rows) of
             (results, count, maxHeight) \<Rightarrow>
               (err, results, \<lparr>p_height = fromHeight, p_offset = count\<rparr>)))"

fun spents_of :: "(hash \<times> nat \<Rightarrow> error option) \<Rightarrow> store \<Rightarrow> txo_ref list
    \<Rightarrow> error + spent_val option list" where
  "spents_of rd s [] = Inr []"
| "spents_of rd s (r # rs) =
     (case spentFromTxo (rd (r_txId r, r_vout r)) s (r_txId r, r_vout r) of
        Inl e \<Rightarrow> Inl e
      | Inr sp \<Rightarrow> (case spents_of rd s rs of Inl e \<Rightarrow> Inl e | Inr sps \<Rightarrow> Inr (sp # sps)))"

text \<open>\<^verbatim>\<open>transactionIdsByScriptId\<close>: the keys of \<^verbatim>\<open>txIdSet\<close> are the spending
  transactions found and the producing transactions; the position is passed on as it
  came.\<close>

definition transactionIdsByScriptId ::
  "(hash \<times> nat \<Rightarrow> error option) \<Rightarrow> (nat \<times> error) option \<Rightarrow> store \<Rightarrow> hash \<Rightarrow> int
     \<Rightarrow> limit_spec \<Rightarrow> error + hash set \<times> position" where
  "transactionIdsByScriptId rd ifault s sc fromHeight limit =
     (case txosListByScriptId ifault s sc fromHeight limit of
        (err, txos, pos) \<Rightarrow>
          (case err of
             Some e \<Rightarrow> Inl e
           | None \<Rightarrow>
               (case spents_of rd s txos of
                  Inl e \<Rightarrow> Inl e
                | Inr spents \<Rightarrow>
                    Inr (set (map spent_txId (concat (map (\<lambda>sp. case sp of None \<Rightarrow> [] | Some v \<Rightarrow> [v]) spents)))
                           \<union> set (map r_txId txos),
                         pos))))"

text \<open>\<^verbatim>\<open>txosByScriptId\<close>: \<^verbatim>\<open>resultMap\<close> is keyed by \<^verbatim>\<open>txId:vout\<close>, here the pair.\<close>

definition txosByScriptId ::
  "(nat \<times> error) option \<Rightarrow> store \<Rightarrow> hash \<Rightarrow> int \<Rightarrow> int option
     \<Rightarrow> error option \<times> (hash \<times> nat, txo_ref) mapping" where
  "txosByScriptId ifault s sc fromHeight limit =
     (case db_iterator ifault (scIndex s) (sc, fromHeight, ZERO64, 0)
             (Some (sc, 0xffffffff, ZERO64, 0)) (or_10000 limit) of
        (rows, err) \<Rightarrow>
          (err, foldl (\<lambda>m (ksc, kh, kt, kv).
                         Mapping.update (kt, kv)
                           \<lparr>r_txId = kt, r_vout = kv, r_scId = sc, r_height = kh\<rparr> m)
                  Mapping.empty (map fst rows)))"

section \<open>Predicates of the statements\<close>

text \<open>The keys one block writes on CONNECT, per index, as the loops of
  \<^verbatim>\<open>connect\<close> produce them.\<close>

definition block_spent_keys :: "block \<Rightarrow> (hash \<times> nat) list" where
  "block_spent_keys b =
     concat (map (\<lambda>t. map (\<lambda>i. (prevTxId i, prevVout i)) (filter (\<lambda>i. \<not> coinbase i) (ins t)))
               (transactions b))"

definition block_txo_keys :: "block \<Rightarrow> (hash \<times> nat) list" where
  "block_txo_keys b = concat (map (\<lambda>t. map (\<lambda>out. (txId t, vout out)) (outs t)) (transactions b))"

definition block_sc_keys :: "block \<Rightarrow> sc_key list" where
  "block_sc_keys b =
     concat (map (\<lambda>t. map (\<lambda>out. (scId out, height b, txId t, vout out)) (outs t)) (transactions b))"

definition block_tx_keys :: "block \<Rightarrow> hash list" where
  "block_tx_keys b = map txId (transactions b)"

text \<open>A store is fresh for a block when none of the keys the block writes is present;
  a block has positional vouts when every output's \<^verbatim>\<open>vout\<close> field is its position
  in \<^verbatim>\<open>outs\<close> (what a parsed transaction looks like).\<close>

definition absent_keys :: "('k, 'v) mapping \<Rightarrow> 'k list \<Rightarrow> bool" where
  "absent_keys m ks = list_all (\<lambda>k. Mapping.lookup m k = None) ks"

definition fresh_for :: "store \<Rightarrow> block \<Rightarrow> bool" where
  "fresh_for s b =
     (absent_keys (spentIndex s) (block_spent_keys b) \<and> absent_keys (txoIndex s) (block_txo_keys b)
      \<and> absent_keys (scIndex s) (block_sc_keys b) \<and> absent_keys (txIndex s) (block_tx_keys b))"

definition positional_vouts :: "block \<Rightarrow> bool" where
  "positional_vouts b = list_all (\<lambda>t. map vout (outs t) = [0..<length (outs t)]) (transactions b)"

section \<open>A small chain\<close>

text \<open>Block 1000 at height 0 holds one coinbase transaction (100) paying 5000000000 to
  script 7; block 1001 at height 1 holds transaction 101, which spends output
  \<open>(100, 0)\<close> and pays 4999990000 to script 8 with \<^verbatim>\<open>vsize\<close> 250. Block 1002 is
  a competing block at height 1 that repeats transaction 100.\<close>

definition coinbase_tx :: tx where
  "coinbase_tx = \<lparr>txId = 100, txBuffer = [1], vsize = 100,
     ins = [\<lparr>coinbase = True, prevTxId = 0, prevVout = 0\<rparr>],
     outs = [\<lparr>scId = 7, script = [81], amount = 5000000000, vout = 0\<rparr>]\<rparr>"

definition spend_tx :: tx where
  "spend_tx = \<lparr>txId = 101, txBuffer = [2], vsize = 250,
     ins = [\<lparr>coinbase = False, prevTxId = 100, prevVout = 0\<rparr>],
     outs = [\<lparr>scId = 8, script = [82], amount = 4999990000, vout = 0\<rparr>]\<rparr>"

definition block0 :: block where
  "block0 = \<lparr>height = 0, blockSize = 285, previousblockhash = 0,
     nextblockhash = Some 1001, transactions = [coinbase_tx]\<rparr>"

definition block1 :: block where
  "block1 = \<lparr>height = 1, blockSize = 300, previousblockhash = 1000,
     nextblockhash = None, transactions = [spend_tx]\<rparr>"

definition dup_block :: block where
  "dup_block = \<lparr>height = 1, blockSize = 285, previousblockhash = 1000,
     nextblockhash = None, transactions = [coinbase_tx]\<rparr>"

definition chain_rpc :: "hash \<Rightarrow> error + block" where
  "chain_rpc blockId = (if blockId = 1000 then Inr block0
                        else if blockId = 1001 then Inr block1 else Inl RpcFailure)"

definition fork_rpc :: "hash \<Rightarrow> error + block" where
  "fork_rpc blockId = (if blockId = 1002 then Inr dup_block else chain_rpc blockId)"

definition store0 :: store where
  "store0 = cr_store (connect chain_rpc no_faults empty_store 1000 0)"

definition store1 :: store where
  "store1 = cr_store (connect chain_rpc no_faults store0 1001 1)"

text \<open>A store whose ScriptIndex holds five outputs of script 7, at heights 10 to 50,
  and one of script 9.\<close>

definition script_store :: store where
  "script_store = empty_store\<lparr>scIndex :=
     Mapping.update (7, 10, 100, 0) ()
       (Mapping.update (7, 20, 101, 0) ()
         (Mapping.update (7, 30, 102, 0) ()
           (Mapping.update (7, 40, 103, 0) ()
             (Mapping.update (7, 50, 104, 0) ()
               (Mapping.update (9, 60, 105, 0) () Mapping.empty)))))\<rparr>"

section \<open>Lemmas on batches\<close>

lemma lookup_delete_if:
  "Mapping.lookup (Mapping.delete k m) k' = (if k = k' then None else Mapping.lookup m k')"
  by (cases "k = k'") simp_all

lemma foldl_apply_spent_untouched:
  "(\<forall>v. PutSpent k v \<notin> set ops) \<Longrightarrow> DelSpent k \<notin> set ops \<Longrightarrow>
   Mapping.lookup (spentIndex (foldl apply_op s ops)) k = Mapping.lookup (spentIndex s) k"
proof (induction ops arbitrary: s)
  case Nil
  show ?case by simp
next
  case (Cons a ops)
  then show ?case
    by (cases a) (auto simp: lookup_update' lookup_delete_if simp del: split_paired_All)
qed

lemma foldl_apply_spent_deleted:
  "(\<forall>k' v. PutSpent k' v \<notin> set ops) \<Longrightarrow>
   Mapping.lookup (spentIndex (foldl apply_op s ops)) k =
     (if DelSpent k \<in> set ops then None else Mapping.lookup (spentIndex s) k)"
proof (induction ops arbitrary: s rule: rev_induct)
  case Nil
  show ?case by simp
next
  case (snoc a ops)
  then show ?case
    by (cases a) (auto simp: lookup_update' lookup_delete_if simp del: split_paired_All)
qed

lemma foldl_apply_txo_untouched:
  "(\<forall>v. PutTxo k v \<notin> set ops) \<Longrightarrow> DelTxo k \<notin> set ops \<Longrightarrow>
   Mapping.lookup (txoIndex (foldl apply_op s ops)) k = Mapping.lookup (txoIndex s) k"
proof (induction ops arbitrary: s)
  case Nil
  show ?case by simp
next
  case (Cons a ops)
  then show ?case
    by (cases a) (auto simp: lookup_update' lookup_delete_if simp del: split_paired_All)
qed

lemma foldl_apply_txo_deleted:
  "(\<forall>k' v. PutTxo k' v \<notin> set ops) \<Longrightarrow>
   Mapping.lookup (txoIndex (foldl apply_op s ops)) k =
     (if DelTxo k \<in> set ops then None else Mapping.lookup (txoIndex s) k)"
proof (induction ops arbitrary: s rule: rev_induct)
  case Nil
  show ?case by simp
next
  case (snoc a ops)
  then show ?case
    by (cases a) (auto simp: lookup_update' lookup_delete_if simp del: split_paired_All)
qed

lemma foldl_apply_sc_untouched:
  "(PutSc k \<notin> set ops) \<Longrightarrow> DelSc k \<notin> set ops \<Longrightarrow>
   Mapping.lookup (scIndex (foldl apply_op s ops)) k = Mapping.lookup (scIndex s) k"
proof (induction ops arbitrary: s)
  case Nil
  show ?case by simp
next
  case (Cons a ops)
  then show ?case
    by (cases a) (auto simp: lookup_update' lookup_delete_if simp del: split_paired_All)
qed

lemma foldl_apply_sc_deleted:
  "(\<forall>k'. PutSc k' \<notin> set ops) \<Longrightarrow>
   Mapping.lookup (scIndex (foldl apply_op s ops)) k =
     (if DelSc k \<in> set ops then None else Mapping.lookup (scIndex s) k)"
proof (induction ops arbitrary: s rule: rev_induct)
  case Nil
  show ?case by simp
next
  case (snoc a ops)
  then show ?case
    by (cases a) (auto simp: lookup_update' lookup_delete_if simp del: split_paired_All)
qed

lemma foldl_apply_tx_untouched:
  "(\<forall>v. PutTx k v \<notin> set ops) \<Longrightarrow> DelTx k \<notin> set ops \<Longrightarrow>
   Mapping.lookup (txIndex (foldl apply_op s ops)) k = Mapping.lookup (txIndex s) k"
proof (induction ops arbitrary: s)
  case Nil
  show ?case by simp
next
  case (Cons a ops)
  then show ?case
    by (cases a) (auto simp: lookup_update' lookup_delete_if simp del: split_paired_All)
qed

lemma foldl_apply_tx_deleted:
  "(\<forall>k' v. PutTx k' v \<notin> set ops) \<Longrightarrow>
   Mapping.lookup (txIndex (foldl apply_op s ops)) k =
     (if DelTx k \<in> set ops then None else Mapping.lookup (txIndex s) k)"
proof (induction ops arbitrary: s rule: rev_induct)
  case Nil
  show ?case by simp
next
  case (snoc a ops)
  then show ?case
    by (cases a) (auto simp: lookup_update' lookup_delete_if simp del: split_paired_All)
qed

lemma foldl_apply_fee_untouched:
  "(\<forall>k v. PutFee k v \<notin> set ops) \<Longrightarrow> feeIndex (foldl apply_op s ops) = feeIndex s"
proof (induction ops arbitrary: s)
  case Nil
  show ?case by simp
next
  case (Cons a ops)
  then show ?case by (cases a) auto
qed

lemma enumerate_positional:
  assumes "map vout xs = [0..<length xs]"
  shows "enumerate 0 xs = map (\<lambda>out. (vout out, out)) xs"
proof (rule nth_equalityI)
  show "length (enumerate 0 xs) = length (map (\<lambda>out. (vout out, out)) xs)" by simp
next
  fix i assume "i < length (enumerate 0 xs)"
  then have i: "i < length xs" by simp
  then have "map vout xs ! i = [0..<length xs] ! i" using assms by simp
  then have "vout (xs ! i) = i" using i by simp
  then show "enumerate 0 xs ! i = map (\<lambda>out. (vout out, out)) xs ! i"
    using i by (simp add: nth_enumerate_eq)
qed

lemma disconnect_tx_ops_positional:
  "map vout (outs t) = [0..<length (outs t)] \<Longrightarrow>
   disconnect_tx_ops h t =
     concat (map (\<lambda>i. if coinbase i then [] else [DelSpent (prevTxId i, prevVout i)]) (ins t))
     @ concat (map (\<lambda>out. [DelSc (scId out, h, txId t, vout out), DelTxo (txId t, vout out)]) (outs t))
     @ [DelTx (txId t)]"
  by (simp add: disconnect_tx_ops_def enumerate_positional comp_def)

lemma enumerate_snd_mem: "(n, x) \<in> set (enumerate m xs) \<Longrightarrow> x \<in> set xs"
  by (auto simp: in_set_enumerate_eq)

lemma connect_ops_spent: "PutSpent k v \<in> set (connect_ops bid h b) \<Longrightarrow> k \<in> set (block_spent_keys b)"
  by (auto simp: connect_ops_def connect_tx_ops_def block_spent_keys_def
      dest: enumerate_snd_mem split: if_splits)

lemma connect_ops_txo: "PutTxo k v \<in> set (connect_ops bid h b) \<Longrightarrow> k \<in> set (block_txo_keys b)"
  by (auto simp: connect_ops_def connect_tx_ops_def block_txo_keys_def split: if_splits)

lemma connect_ops_sc: "PutSc k \<in> set (connect_ops bid (height b) b) \<Longrightarrow> k \<in> set (block_sc_keys b)"
  by (auto simp: connect_ops_def connect_tx_ops_def block_sc_keys_def split: if_splits)

lemma connect_ops_tx: "PutTx k v \<in> set (connect_ops bid h b) \<Longrightarrow> k \<in> set (block_tx_keys b)"
  by (auto simp: connect_ops_def connect_tx_ops_def block_tx_keys_def split: if_splits)

lemma connect_ops_no_del:
  "DelSpent k1 \<notin> set (connect_ops bid h b)" "DelTxo k2 \<notin> set (connect_ops bid h b)"
  "DelSc k3 \<notin> set (connect_ops bid h b)" "DelTx k4 \<notin> set (connect_ops bid h b)"
  by (auto simp: connect_ops_def connect_tx_ops_def split: if_splits)

lemma disconnect_ops_no_put:
  "PutSpent k1 v1 \<notin> set (disconnect_ops b)" "PutTxo k2 v2 \<notin> set (disconnect_ops b)"
  "PutSc k3 \<notin> set (disconnect_ops b)" "PutTx k4 v4 \<notin> set (disconnect_ops b)"
  "PutFee k5 v5 \<notin> set (disconnect_ops b)"
  by (auto simp: disconnect_ops_def disconnect_tx_ops_def split: if_splits)

lemma disconnect_ops_spent: "DelSpent k \<in> set (disconnect_ops b) \<longleftrightarrow> k \<in> set (block_spent_keys b)"
  by (auto simp: disconnect_ops_def disconnect_tx_ops_def block_spent_keys_def split: if_splits)

lemma disconnect_ops_tx: "DelTx k \<in> set (disconnect_ops b) \<longleftrightarrow> k \<in> set (block_tx_keys b)"
  by (auto simp: disconnect_ops_def disconnect_tx_ops_def block_tx_keys_def split: if_splits)

lemma disconnect_ops_txo:
  "positional_vouts b \<Longrightarrow> DelTxo k \<in> set (disconnect_ops b) \<longleftrightarrow> k \<in> set (block_txo_keys b)"
  by (auto simp: disconnect_ops_def positional_vouts_def list_all_iff disconnect_tx_ops_positional
      block_txo_keys_def split: if_splits)

lemma disconnect_ops_sc:
  "positional_vouts b \<Longrightarrow> DelSc k \<in> set (disconnect_ops b) \<longleftrightarrow> k \<in> set (block_sc_keys b)"
  by (auto simp: disconnect_ops_def positional_vouts_def list_all_iff disconnect_tx_ops_positional
      block_sc_keys_def split: if_splits)

lemma connect_success_store:
  assumes "rpc blockId = Inr b" and "cr_err (connect rpc fs s blockId h) = None"
  shows "h = height b \<and>
         (\<exists>rates. cr_store (connect rpc fs s blockId h) =
            apply_op (foldl apply_op s (connect_ops blockId (height b) b))
              (PutFee (height b) \<lparr>fv_fees = box (sort rates), fv_size = blockSize b\<rparr>))"
  using assms
  by (auto simp: connect_def connect2ndOrder_def atomic_write_def
      split: if_splits sum.splits option.splits prod.splits)

lemma disconnect_success_store:
  assumes "rpc blockId = Inr b" and "disconnect rpc wfault s blockId = (s', None)"
  shows "s' = foldl apply_op s (disconnect_ops b)"
  using assms
  by (auto simp: disconnect_def atomic_write_def split: sum.splits option.splits)

lemma foldl_apply_tip_last:
  "Mapping.lookup (tipIndex (foldl apply_op s (ops @ [PutTip v]))) () = Some v"
  by simp

lemma foldl_walk_count:
  "fst (snd (foldl (walk_step sc off) st keys)) = fst (snd st) + int (length keys)"
proof (induction keys arbitrary: st)
  case Nil
  show ?case by simp
next
  case (Cons k ks)
  obtain r c m where st: "st = (r, c, m)" by (cases st)
  obtain a b d e where k: "k = (a, b, d, e)" by (cases k)
  show ?case by (simp add: Cons.IH st k)
qed

section \<open>Fee summary boundaries\<close>

lemma box_index_in_range: "data \<noteq> [] \<Longrightarrow> length data div 2 + length data div 4 < length data"
proof -
  assume "data \<noteq> []"
  then have "0 < length data" by simp
  then show ?thesis by arith
qed

lemma box_sorted_order:
  "q1 (box (sort rates)) \<le> median (box (sort rates))
   \<and> median (box (sort rates)) \<le> q3 (box (sort rates))"
proof (cases "rates = []")
  case True
  then show ?thesis by (simp add: box_def)
next
  case False
  define xs where "xs = sort rates"
  have ne: "xs \<noteq> []" using False by (auto simp: xs_def dest: arg_cong [where f = length])
  have srt: "sorted xs" by (simp add: xs_def)
  have top: "length xs div 2 + length xs div 4 < length xs"
    by (rule box_index_in_range [OF ne])
  have "xs ! (length xs div 4) \<le> xs ! (length xs div 2)"
    using srt top by (intro sorted_nth_mono) auto
  moreover have "xs ! (length xs div 2) \<le> xs ! (length xs div 2 + length xs div 4)"
    using srt top by (intro sorted_nth_mono) auto
  ultimately show ?thesis
    using ne by (simp add: box_def Let_def xs_def [symmetric])
qed

text \<open>
  C6. The box summary of a sample of length \<open>n\<close> picks \<open>sample[n div 4]\<close>,
  \<open>sample[n div 2]\<close> and \<open>sample[n div 2 + n div 4]\<close> (the three positions lie inside a
  non-empty sample); the empty sample gives three zeros and a one-element sample gives
  its element three times. The summary \<^verbatim>\<open>connect2ndOrder\<close> stores is the box of the
  ascending sample \<open>sort rates\<close>, which the statement covers with every other list; on
  that sample the three picks are in ascending order.
\<close>

theorem box_picks:
  "box [] = \<lparr>q1 = 0, median = 0, q3 = 0\<rparr>
   \<and> box [x] = \<lparr>q1 = x, median = x, q3 = x\<rparr>
   \<and> box (x # xs) =
       \<lparr>q1 = (x # xs) ! (length (x # xs) div 4),
        median = (x # xs) ! (length (x # xs) div 2),
        q3 = (x # xs) ! (length (x # xs) div 2 + length (x # xs) div 4)\<rparr>
   \<and> length (x # xs) div 2 + length (x # xs) div 4 < length (x # xs)
   \<and> q1 (box (sort rates)) \<le> median (box (sort rates))
   \<and> median (box (sort rates)) \<le> q3 (box (sort rates))"
proof -
  have "length (x # xs) div 2 + length (x # xs) div 4 < length (x # xs)"
    by (rule box_index_in_range) simp
  then show ?thesis
    using box_sorted_order [of rates] by (simp add: box_def Let_def)
qed

text \<open>
  C7 (as the code has it). For a sample of length 4, \<open>[a, b, c, d]\<close>, the quarter is 1
  and the midpoint 2, so the box summary is \<open>(q1, median, q3) = (b, c, d)\<close>.
\<close>

theorem box_of_four: "box [a, b, c, d] = \<lparr>q1 = b, median = c, q3 = d\<rparr>"
  by (simp add: box_def Let_def)

text \<open>The summary \<open>(a, c, c)\<close> is not what \<^verbatim>\<open>box\<close> returns for the ascending sample
  \<open>[1, 2, 3, 4]\<close>.\<close>

theorem box_of_four_not_acc:
  "sorted [1, 2, 3, 4 :: int] \<and> box [1, 2, 3, 4] \<noteq> \<lparr>q1 = 1, median = 3, q3 = 3\<rparr>"
  by (simp add: box_def Let_def)

section \<open>CONNECT: height gate and event emission\<close>

text \<open>
  C8. When the fetched block body's height differs from the expected height, CONNECT
  hands \<open>HeightMismatch\<close> to the callback, leaves the store as it was (no key of any
  index is written) and emits no event.
\<close>

theorem connect_height_mismatch:
  "rpc blockId = Inr b \<Longrightarrow> h \<noteq> height b \<Longrightarrow>
   connect rpc fs s blockId h =
     \<lparr>cr_store = s, cr_err = Some HeightMismatch, cr_next = None, cr_emitted = []\<rparr>"
  by (simp add: connect_def)

text \<open>The spec's scenario: block 1001 has height 1 and is connected as height 5.\<close>

theorem connect_height_mismatch_witness:
  "chain_rpc 1001 = Inr block1 \<and> (5::int) \<noteq> height block1 \<and>
   connect chain_rpc no_faults empty_store 1001 5 =
     \<lparr>cr_store = empty_store, cr_err = Some HeightMismatch, cr_next = None, cr_emitted = []\<rparr>"
proof -
  have a: "chain_rpc 1001 = Inr block1" by (simp add: chain_rpc_def)
  have b: "(5::int) \<noteq> height block1" by (simp add: block1_def)
  show ?thesis
    using a b connect_height_mismatch [of chain_rpc 1001 block1 5 no_faults empty_store] by simp
qed

text \<open>
  C2 (what the code does). Once the block is fetched, its height matches and the
  primary batch is committed, the queued events are emitted whatever the 2nd-order
  pass ends in. On the empty store, CONNECT of block 1001 fails with
  \<open>MissingTxo 100 0\<close> and still emits its four events; with a failing fee commit,
  CONNECT of block 1000 fails with \<open>KvFailure\<close> and still emits its three events.
\<close>

theorem failed_connect_still_emits:
  "cr_emitted (connect (\<lambda>_. Inr b) (fs\<lparr>primaryWrite := None\<rparr>) s blockId (height b))
     = connect_events blockId (height b) b
   \<and> cr_err (connect chain_rpc no_faults empty_store 1001 1) = Some (MissingTxo 100 0)
   \<and> cr_emitted (connect chain_rpc no_faults empty_store 1001 1)
       = [Spent 100 0 101, Script 8 101 [2], Transaction 101 [2] 1001, Block 1001 1]
   \<and> cr_err (connect chain_rpc (no_faults\<lparr>feeWrite := Some KvFailure\<rparr>) empty_store 1000 0)
       = Some KvFailure
   \<and> cr_emitted (connect chain_rpc (no_faults\<lparr>feeWrite := Some KvFailure\<rparr>) empty_store 1000 0)
       = [Script 7 100 [1], Transaction 100 [1] 1000, Block 1000 0]"
proof -
  have "cr_emitted (connect (\<lambda>_. Inr b) (fs\<lparr>primaryWrite := None\<rparr>) s blockId (height b))
     = connect_events blockId (height b) b"
    by (simp add: connect_def atomic_write_def split: prod.splits)
  moreover have "cr_err (connect chain_rpc no_faults empty_store 1001 1) = Some (MissingTxo 100 0)"
    by (simp add: connect_def connect_ops_def connect_tx_ops_def connect_events_def
        connect_tx_events_def
        connect2ndOrder_def tx_feeRate_def atomic_write_def db_get_def box_def enumerate_eq_zip Let_def
        chain_rpc_def block1_def spend_tx_def no_faults_def empty_store_def)
  moreover have "cr_emitted (connect chain_rpc no_faults empty_store 1001 1)
       = [Spent 100 0 101, Script 8 101 [2], Transaction 101 [2] 1001, Block 1001 1]"
    by (simp add: connect_def connect_ops_def connect_tx_ops_def connect_events_def
        connect_tx_events_def
        connect2ndOrder_def tx_feeRate_def atomic_write_def db_get_def box_def enumerate_eq_zip Let_def
        chain_rpc_def block1_def spend_tx_def no_faults_def empty_store_def)
  moreover have
    "cr_err (connect chain_rpc (no_faults\<lparr>feeWrite := Some KvFailure\<rparr>) empty_store 1000 0)
       = Some KvFailure"
    by (simp add: connect_def connect_ops_def connect_tx_ops_def connect_events_def
        connect_tx_events_def
        connect2ndOrder_def tx_feeRate_def atomic_write_def db_get_def box_def enumerate_eq_zip Let_def
        chain_rpc_def block0_def coinbase_tx_def no_faults_def empty_store_def)
  moreover have
    "cr_emitted (connect chain_rpc (no_faults\<lparr>feeWrite := Some KvFailure\<rparr>) empty_store 1000 0)
       = [Script 7 100 [1], Transaction 100 [1] 1000, Block 1000 0]"
    by (simp add: connect_def connect_ops_def connect_tx_ops_def connect_events_def
        connect_tx_events_def
        connect2ndOrder_def tx_feeRate_def atomic_write_def db_get_def box_def enumerate_eq_zip Let_def
        chain_rpc_def block0_def coinbase_tx_def no_faults_def empty_store_def)
  ultimately show ?thesis by simp
qed

section \<open>DISCONNECT: the Tip row and the round trip\<close>

text \<open>
  C1 (what the code does). The batch of DISCONNECT ends with the Tip row
  \<open>{blockId: previousblockhash, height}\<close>, where \<open>height\<close> is the height of the
  block being removed, not \<open>height - 1\<close>. After CONNECT of block 1000 at height 0 the
  Tip is \<open>{1000, 0}\<close>; after CONNECT and then DISCONNECT of block 1001 (height 1)
  the Tip is \<open>{1000, 1}\<close>.
\<close>

theorem disconnect_tip_height:
  "Mapping.lookup (tipIndex (foldl apply_op s (disconnect_ops b))) ()
     = Some \<lparr>tip_blockId = previousblockhash b, tip_height = height b\<rparr>
   \<and> Mapping.lookup (tipIndex store0) () = Some \<lparr>tip_blockId = 1000, tip_height = 0\<rparr>
   \<and> cr_err (connect chain_rpc no_faults store0 1001 1) = None
   \<and> snd (disconnect chain_rpc None store1 1001) = None
   \<and> Mapping.lookup (tipIndex (fst (disconnect chain_rpc None store1 1001))) ()
       = Some \<lparr>tip_blockId = 1000, tip_height = 1\<rparr>"
proof -
  have "Mapping.lookup (tipIndex (foldl apply_op s (disconnect_ops b))) ()
     = Some \<lparr>tip_blockId = previousblockhash b, tip_height = height b\<rparr>"
    by (simp add: disconnect_ops_def)
  moreover have "Mapping.lookup (tipIndex store0) () = Some \<lparr>tip_blockId = 1000, tip_height = 0\<rparr>"
    by (simp add: store0_def connect_def connect_ops_def connect_tx_ops_def connect_events_def
        connect_tx_events_def
        connect2ndOrder_def tx_feeRate_def atomic_write_def db_get_def box_def enumerate_eq_zip Let_def
        chain_rpc_def block0_def coinbase_tx_def no_faults_def empty_store_def)
  moreover have "cr_err (connect chain_rpc no_faults store0 1001 1) = None"
    by (simp add: store0_def connect_def connect_ops_def connect_tx_ops_def connect_events_def
        connect_tx_events_def
        connect2ndOrder_def tx_feeRate_def atomic_write_def db_get_def box_def enumerate_eq_zip Let_def
        chain_rpc_def block0_def block1_def coinbase_tx_def spend_tx_def no_faults_def empty_store_def)
  moreover have "snd (disconnect chain_rpc None store1 1001) = None"
    by (simp add: store1_def store0_def disconnect_def disconnect_ops_def disconnect_tx_ops_def
        connect_def connect_ops_def connect_tx_ops_def connect_events_def connect_tx_events_def
        connect2ndOrder_def tx_feeRate_def atomic_write_def db_get_def box_def enumerate_eq_zip Let_def
        chain_rpc_def block0_def block1_def coinbase_tx_def spend_tx_def no_faults_def empty_store_def)
  moreover have "Mapping.lookup (tipIndex (fst (disconnect chain_rpc None store1 1001))) ()
       = Some \<lparr>tip_blockId = 1000, tip_height = 1\<rparr>"
    by (simp add: store1_def store0_def disconnect_def disconnect_ops_def disconnect_tx_ops_def
        connect_def connect_ops_def connect_tx_ops_def connect_events_def connect_tx_events_def
        connect2ndOrder_def tx_feeRate_def atomic_write_def db_get_def box_def enumerate_eq_zip Let_def
        chain_rpc_def block0_def block1_def coinbase_tx_def spend_tx_def no_faults_def empty_store_def)
  ultimately show ?thesis by simp
qed

text \<open>
  C3 (amended). For a block with positional vouts and a store that is fresh for it,
  a successful CONNECT followed by a successful DISCONNECT of the block leaves
  TxIndex, TxoIndex, SpentIndex and ScriptIndex as they were before the CONNECT; the
  FeeIndex is as CONNECT left it, with the row of the block's height retained; the Tip
  names the block's \<open>previousblockhash\<close>.
\<close>

theorem connect_disconnect_round_trip:
  assumes rpc: "rpc blockId = Inr b"
    and conn: "cr_err (connect rpc fs s blockId h) = None"
    and disc: "disconnect rpc wfault (cr_store (connect rpc fs s blockId h)) blockId = (s', None)"
    and pos: "positional_vouts b"
    and fresh: "fresh_for s b"
  shows "txIndex s' = txIndex s \<and> txoIndex s' = txoIndex s
     \<and> spentIndex s' = spentIndex s \<and> scIndex s' = scIndex s
     \<and> feeIndex s' = feeIndex (cr_store (connect rpc fs s blockId h))
     \<and> map_option fv_size (Mapping.lookup (feeIndex s') (height b)) = Some (blockSize b)
     \<and> map_option tip_blockId (Mapping.lookup (tipIndex s') ()) = Some (previousblockhash b)"
proof -
  define s1 where "s1 = foldl apply_op s (connect_ops blockId (height b) b)"
  define s2 where "s2 = cr_store (connect rpc fs s blockId h)"
  from connect_success_store [OF rpc conn] obtain rates where
    s2: "s2 = apply_op s1 (PutFee (height b) \<lparr>fv_fees = box (sort rates), fv_size = blockSize b\<rparr>)"
    unfolding s1_def s2_def by blast
  have s': "s' = foldl apply_op s2 (disconnect_ops b)"
    using disconnect_success_store [OF rpc disc] unfolding s2_def by simp
  have same: "txIndex s2 = txIndex s1" "txoIndex s2 = txoIndex s1"
    "spentIndex s2 = spentIndex s1" "scIndex s2 = scIndex s1"
    by (simp_all add: s2)
  have fr: "\<And>k. k \<in> set (block_tx_keys b) \<Longrightarrow> Mapping.lookup (txIndex s) k = None"
    "\<And>k. k \<in> set (block_txo_keys b) \<Longrightarrow> Mapping.lookup (txoIndex s) k = None"
    "\<And>k. k \<in> set (block_spent_keys b) \<Longrightarrow> Mapping.lookup (spentIndex s) k = None"
    "\<And>k. k \<in> set (block_sc_keys b) \<Longrightarrow> Mapping.lookup (scIndex s) k = None"
    using fresh by (auto simp: fresh_for_def absent_keys_def list_all_iff)
  have tx: "txIndex s' = txIndex s"
  proof (rule mapping_eqI)
    fix k
    have d: "Mapping.lookup (txIndex s') k =
        (if k \<in> set (block_tx_keys b) then None else Mapping.lookup (txIndex s1) k)"
      unfolding s' by (simp add: foldl_apply_tx_deleted disconnect_ops_no_put disconnect_ops_tx same)
    show "Mapping.lookup (txIndex s') k = Mapping.lookup (txIndex s) k"
    proof (cases "k \<in> set (block_tx_keys b)")
      case True
      then show ?thesis using d fr(1) by simp
    next
      case False
      then have "Mapping.lookup (txIndex s1) k = Mapping.lookup (txIndex s) k"
        unfolding s1_def
        by (intro foldl_apply_tx_untouched) (auto simp: connect_ops_no_del dest: connect_ops_tx)
      then show ?thesis using d False by simp
    qed
  qed
  have txo: "txoIndex s' = txoIndex s"
  proof (rule mapping_eqI)
    fix k
    have d: "Mapping.lookup (txoIndex s') k =
        (if k \<in> set (block_txo_keys b) then None else Mapping.lookup (txoIndex s1) k)"
      unfolding s'
      by (simp add: foldl_apply_txo_deleted disconnect_ops_no_put disconnect_ops_txo [OF pos] same)
    show "Mapping.lookup (txoIndex s') k = Mapping.lookup (txoIndex s) k"
    proof (cases "k \<in> set (block_txo_keys b)")
      case True
      then show ?thesis using d fr(2) by simp
    next
      case False
      then have "Mapping.lookup (txoIndex s1) k = Mapping.lookup (txoIndex s) k"
        unfolding s1_def
        by (intro foldl_apply_txo_untouched) (auto simp: connect_ops_no_del dest: connect_ops_txo)
      then show ?thesis using d False by simp
    qed
  qed
  have spent: "spentIndex s' = spentIndex s"
  proof (rule mapping_eqI)
    fix k
    have d: "Mapping.lookup (spentIndex s') k =
        (if k \<in> set (block_spent_keys b) then None else Mapping.lookup (spentIndex s1) k)"
      unfolding s'
      by (simp add: foldl_apply_spent_deleted disconnect_ops_no_put disconnect_ops_spent same)
    show "Mapping.lookup (spentIndex s') k = Mapping.lookup (spentIndex s) k"
    proof (cases "k \<in> set (block_spent_keys b)")
      case True
      then show ?thesis using d fr(3) by simp
    next
      case False
      then have "Mapping.lookup (spentIndex s1) k = Mapping.lookup (spentIndex s) k"
        unfolding s1_def
        by (intro foldl_apply_spent_untouched) (auto simp: connect_ops_no_del dest: connect_ops_spent)
      then show ?thesis using d False by simp
    qed
  qed
  have sc: "scIndex s' = scIndex s"
  proof (rule mapping_eqI)
    fix k
    have d: "Mapping.lookup (scIndex s') k =
        (if k \<in> set (block_sc_keys b) then None else Mapping.lookup (scIndex s1) k)"
      unfolding s'
      by (simp add: foldl_apply_sc_deleted disconnect_ops_no_put disconnect_ops_sc [OF pos] same)
    show "Mapping.lookup (scIndex s') k = Mapping.lookup (scIndex s) k"
    proof (cases "k \<in> set (block_sc_keys b)")
      case True
      then show ?thesis using d fr(4) by simp
    next
      case False
      then have "Mapping.lookup (scIndex s1) k = Mapping.lookup (scIndex s) k"
        unfolding s1_def
        by (intro foldl_apply_sc_untouched) (auto simp: connect_ops_no_del dest: connect_ops_sc)
      then show ?thesis using d False by simp
    qed
  qed
  have fee: "feeIndex s' = feeIndex s2"
    unfolding s' by (simp add: foldl_apply_fee_untouched disconnect_ops_no_put)
  have fee_row: "map_option fv_size (Mapping.lookup (feeIndex s') (height b)) = Some (blockSize b)"
    by (simp add: fee s2)
  have tip: "map_option tip_blockId (Mapping.lookup (tipIndex s') ()) = Some (previousblockhash b)"
    unfolding s' disconnect_ops_def by simp
  show ?thesis
    using tx txo spent sc fee fee_row tip unfolding s2_def by simp
qed

text \<open>The round trip of block 1001 on the store that holds block 1000.\<close>

theorem connect_disconnect_round_trip_witness:
  "chain_rpc 1001 = Inr block1
   \<and> cr_err (connect chain_rpc no_faults store0 1001 1) = None
   \<and> snd (disconnect chain_rpc None store1 1001) = None
   \<and> positional_vouts block1 \<and> fresh_for store0 block1
   \<and> txIndex (fst (disconnect chain_rpc None store1 1001)) = txIndex store0
   \<and> txoIndex (fst (disconnect chain_rpc None store1 1001)) = txoIndex store0
   \<and> spentIndex (fst (disconnect chain_rpc None store1 1001)) = spentIndex store0
   \<and> scIndex (fst (disconnect chain_rpc None store1 1001)) = scIndex store0
   \<and> map_option fv_size (Mapping.lookup (feeIndex (fst (disconnect chain_rpc None store1 1001))) 1)
       = Some 300"
proof -
  have rpc: "chain_rpc 1001 = Inr block1"
    by (simp add: chain_rpc_def)
  have conn: "cr_err (connect chain_rpc no_faults store0 1001 1) = None"
    by (simp add: store0_def connect_def connect_ops_def connect_tx_ops_def connect_events_def
        connect_tx_events_def
        connect2ndOrder_def tx_feeRate_def atomic_write_def db_get_def box_def enumerate_eq_zip Let_def
        chain_rpc_def block0_def block1_def coinbase_tx_def spend_tx_def no_faults_def empty_store_def)
  have ok: "snd (disconnect chain_rpc None store1 1001) = None"
    by (simp add: store1_def store0_def disconnect_def disconnect_ops_def disconnect_tx_ops_def
        connect_def connect_ops_def connect_tx_ops_def connect_events_def connect_tx_events_def
        connect2ndOrder_def tx_feeRate_def atomic_write_def db_get_def box_def enumerate_eq_zip Let_def
        chain_rpc_def block0_def block1_def coinbase_tx_def spend_tx_def no_faults_def empty_store_def)
  have disc: "disconnect chain_rpc None (cr_store (connect chain_rpc no_faults store0 1001 1)) 1001
      = (fst (disconnect chain_rpc None store1 1001), None)"
    using ok by (simp add: store1_def prod_eq_iff)
  have pos: "positional_vouts block1"
    by (simp add: positional_vouts_def block1_def spend_tx_def)
  have fresh: "fresh_for store0 block1"
    by (simp add: fresh_for_def absent_keys_def block_spent_keys_def block_txo_keys_def
        block_sc_keys_def block_tx_keys_def store0_def block1_def spend_tx_def
        connect_def connect_ops_def connect_tx_ops_def connect_events_def connect_tx_events_def
        connect2ndOrder_def tx_feeRate_def atomic_write_def db_get_def box_def enumerate_eq_zip Let_def
        chain_rpc_def block0_def coinbase_tx_def no_faults_def empty_store_def)
  have h: "height block1 = 1" "blockSize block1 = 300"
    by (simp_all add: block1_def)
  note rt = connect_disconnect_round_trip [OF rpc conn disc pos fresh]
  from rt have feerow:
    "map_option fv_size (Mapping.lookup (feeIndex (fst (disconnect chain_rpc None store1 1001)))
        (height block1)) = Some (blockSize block1)"
    by blast
  from rt have idx: "txIndex (fst (disconnect chain_rpc None store1 1001)) = txIndex store0"
    "txoIndex (fst (disconnect chain_rpc None store1 1001)) = txoIndex store0"
    "spentIndex (fst (disconnect chain_rpc None store1 1001)) = spentIndex store0"
    "scIndex (fst (disconnect chain_rpc None store1 1001)) = scIndex store0"
    by blast+
  show ?thesis
    using idx feerow [unfolded h] rpc conn ok pos fresh by blast
qed

text \<open>On a store that already holds transaction 100 (from block 1000), CONNECT and
  then DISCONNECT of block 1002, which repeats that transaction, do not restore the
  keys the block touched: the TxIndex row of 100 and the TxoIndex row of \<open>(100, 0)\<close>
  were present before and are absent afterwards.\<close>

theorem round_trip_loses_prior_rows:
  "Mapping.lookup (txIndex store0) 100 = Some 0
   \<and> Mapping.lookup (txoIndex store0) (100, 0) = Some \<lparr>txo_value = 5000000000, txo_script = [81]\<rparr>
   \<and> cr_err (connect fork_rpc no_faults store0 1002 1) = None
   \<and> snd (disconnect fork_rpc None (cr_store (connect fork_rpc no_faults store0 1002 1)) 1002) = None
   \<and> Mapping.lookup (txIndex (fst (disconnect fork_rpc None
         (cr_store (connect fork_rpc no_faults store0 1002 1)) 1002))) 100 = None
   \<and> Mapping.lookup (txoIndex (fst (disconnect fork_rpc None
         (cr_store (connect fork_rpc no_faults store0 1002 1)) 1002))) (100, 0) = None"
proof -
  have "Mapping.lookup (txIndex store0) 100 = Some 0"
    by (simp add: store0_def fork_rpc_def dup_block_def disconnect_def disconnect_ops_def
        disconnect_tx_ops_def
        connect_def connect_ops_def connect_tx_ops_def connect_events_def connect_tx_events_def
        connect2ndOrder_def tx_feeRate_def atomic_write_def db_get_def box_def enumerate_eq_zip Let_def
        chain_rpc_def block0_def coinbase_tx_def no_faults_def empty_store_def)
  moreover have "Mapping.lookup (txoIndex store0) (100, 0)
      = Some \<lparr>txo_value = 5000000000, txo_script = [81]\<rparr>"
    by (simp add: store0_def fork_rpc_def dup_block_def disconnect_def disconnect_ops_def
        disconnect_tx_ops_def
        connect_def connect_ops_def connect_tx_ops_def connect_events_def connect_tx_events_def
        connect2ndOrder_def tx_feeRate_def atomic_write_def db_get_def box_def enumerate_eq_zip Let_def
        chain_rpc_def block0_def coinbase_tx_def no_faults_def empty_store_def)
  moreover have "cr_err (connect fork_rpc no_faults store0 1002 1) = None"
    by (simp add: store0_def fork_rpc_def dup_block_def disconnect_def disconnect_ops_def
        disconnect_tx_ops_def
        connect_def connect_ops_def connect_tx_ops_def connect_events_def connect_tx_events_def
        connect2ndOrder_def tx_feeRate_def atomic_write_def db_get_def box_def enumerate_eq_zip Let_def
        chain_rpc_def block0_def coinbase_tx_def no_faults_def empty_store_def)
  moreover have
    "snd (disconnect fork_rpc None (cr_store (connect fork_rpc no_faults store0 1002 1)) 1002) = None"
    by (simp add: store0_def fork_rpc_def dup_block_def disconnect_def disconnect_ops_def
        disconnect_tx_ops_def
        connect_def connect_ops_def connect_tx_ops_def connect_events_def connect_tx_events_def
        connect2ndOrder_def tx_feeRate_def atomic_write_def db_get_def box_def enumerate_eq_zip Let_def
        chain_rpc_def block0_def coinbase_tx_def no_faults_def empty_store_def)
  moreover have "Mapping.lookup (txIndex (fst (disconnect fork_rpc None
         (cr_store (connect fork_rpc no_faults store0 1002 1)) 1002))) 100 = None"
    by (simp add: store0_def fork_rpc_def dup_block_def disconnect_def disconnect_ops_def
        disconnect_tx_ops_def
        connect_def connect_ops_def connect_tx_ops_def connect_events_def connect_tx_events_def
        connect2ndOrder_def tx_feeRate_def atomic_write_def db_get_def box_def enumerate_eq_zip Let_def
        chain_rpc_def block0_def coinbase_tx_def no_faults_def empty_store_def)
  moreover have "Mapping.lookup (txoIndex (fst (disconnect fork_rpc None
         (cr_store (connect fork_rpc no_faults store0 1002 1)) 1002))) (100, 0) = None"
    by (simp add: store0_def fork_rpc_def dup_block_def disconnect_def disconnect_ops_def
        disconnect_tx_ops_def
        connect_def connect_ops_def connect_tx_ops_def connect_events_def connect_tx_events_def
        connect2ndOrder_def tx_feeRate_def atomic_write_def db_get_def box_def enumerate_eq_zip Let_def
        chain_rpc_def block0_def coinbase_tx_def no_faults_def empty_store_def)
  ultimately show ?thesis by simp
qed

section \<open>Script scans\<close>

text \<open>
  C4 (what the code does). The position \<^verbatim>\<open>__txosListByScriptId\<close> returns carries
  the \<open>fromHeight\<close> argument as its height, for every call; the maximum height the
  walk computes is not returned. Scanning script 7 from height 0 walks five entries up
  to height 50 (the walk's own maximum) and reports \<open>{height: 0, offset: 5}\<close>, which
  \<^verbatim>\<open>transactionIdsByScriptId\<close> passes on.
\<close>

theorem position_reports_fromHeight:
  "p_height (snd (snd (txosListByScriptId ifault s sc h limit))) = h
   \<and> snd (snd (walk 7 0 0 (map fst (db_range (scIndex script_store) (7, 0, ZERO64, 0)
                                        (Some (7, 0xffffffff, ZERO64, 0)))))) = 50
   \<and> txosListByScriptId None script_store 7 0 Omitted =
     (None,
      [\<lparr>r_txId = 100, r_vout = 0, r_scId = 7, r_height = 10\<rparr>,
       \<lparr>r_txId = 101, r_vout = 0, r_scId = 7, r_height = 20\<rparr>,
       \<lparr>r_txId = 102, r_vout = 0, r_scId = 7, r_height = 30\<rparr>,
       \<lparr>r_txId = 103, r_vout = 0, r_scId = 7, r_height = 40\<rparr>,
       \<lparr>r_txId = 104, r_vout = 0, r_scId = 7, r_height = 50\<rparr>],
      \<lparr>p_height = 0, p_offset = 5\<rparr>)
   \<and> transactionIdsByScriptId (\<lambda>_. None) None script_store 7 0 Omitted =
       Inr ({100, 101, 102, 103, 104}, \<lparr>p_height = 0, p_offset = 5\<rparr>)"
proof -
  have "p_height (snd (snd (txosListByScriptId ifault s sc h limit))) = h"
    by (simp add: txosListByScriptId_def case_prod_unfold)
  moreover have
    "snd (snd (walk 7 0 0 (map fst (db_range (scIndex script_store) (7, 0, ZERO64, 0)
                                        (Some (7, 0xffffffff, ZERO64, 0)))))) = 50"
    by (simp add: transactionIdsByScriptId_def spentFromTxo_def db_get_def
        txosListByScriptId_def db_iterator_def db_range_def walk_def limit_offset_def limit_count_def
        or_10000_def ZERO64_def script_store_def empty_store_def Let_def)
  moreover have "txosListByScriptId None script_store 7 0 Omitted =
     (None,
      [\<lparr>r_txId = 100, r_vout = 0, r_scId = 7, r_height = 10\<rparr>,
       \<lparr>r_txId = 101, r_vout = 0, r_scId = 7, r_height = 20\<rparr>,
       \<lparr>r_txId = 102, r_vout = 0, r_scId = 7, r_height = 30\<rparr>,
       \<lparr>r_txId = 103, r_vout = 0, r_scId = 7, r_height = 40\<rparr>,
       \<lparr>r_txId = 104, r_vout = 0, r_scId = 7, r_height = 50\<rparr>],
      \<lparr>p_height = 0, p_offset = 5\<rparr>)"
    by (simp add: transactionIdsByScriptId_def spentFromTxo_def db_get_def
        txosListByScriptId_def db_iterator_def db_range_def walk_def limit_offset_def limit_count_def
        or_10000_def ZERO64_def script_store_def empty_store_def Let_def)
  moreover have "transactionIdsByScriptId (\<lambda>_. None) None script_store 7 0 Omitted =
       Inr ({100, 101, 102, 103, 104}, \<lparr>p_height = 0, p_offset = 5\<rparr>)"
    by (simp add: transactionIdsByScriptId_def spentFromTxo_def db_get_def
        txosListByScriptId_def db_iterator_def db_range_def walk_def limit_offset_def limit_count_def
        or_10000_def ZERO64_def script_store_def empty_store_def Let_def)
  ultimately show ?thesis by simp
qed

text \<open>
  C5 (what the code does). With the pair \<open>[2, 5]\<close> the iterator is bounded to
  \<open>5 - 2 = 3\<close> entries walked, and only the entries whose running count is below 2
  are dropped, that is one entry: of the five outputs of script 7 the call returns the
  second and the third (heights 20 and 30), not the entries from position 2 onward
  (heights 30, 40, 50).
\<close>

theorem slice_2_5:
  "txosListByScriptId None script_store 7 0 (Slice 2 5) =
     (None,
      [\<lparr>r_txId = 101, r_vout = 0, r_scId = 7, r_height = 20\<rparr>,
       \<lparr>r_txId = 102, r_vout = 0, r_scId = 7, r_height = 30\<rparr>],
      \<lparr>p_height = 0, p_offset = 3\<rparr>)"
  by (simp add: txosListByScriptId_def db_iterator_def db_range_def walk_def limit_offset_def
      limit_count_def
        or_10000_def ZERO64_def script_store_def empty_store_def Let_def)

lemma foldl_resultMap_keys:
  "Mapping.keys (foldl (\<lambda>m (ksc, kh, kt, kv).
                     Mapping.update (kt, kv)
                       \<lparr>r_txId = kt, r_vout = kv, r_scId = sc, r_height = kh\<rparr> m) m0 ks)
   = Mapping.keys m0 \<union> (\<lambda>(ksc, kh, kt, kv). (kt, kv)) ` set ks"
proof (induction ks arbitrary: m0)
  case Nil
  show ?case by simp
next
  case (Cons k ks)
  obtain a b c d where k: "k = (a, b, c, d)" by (cases k)
  show ?case by (simp add: Cons.IH k)
qed

lemma foldl_walk_no_offset:
  "0 \<le> c \<Longrightarrow>
   fst (foldl (walk_step sc 0) (acc, c, m) ks)
     = acc @ map (\<lambda>(ksc, kh, kt, kv). \<lparr>r_txId = kt, r_vout = kv, r_scId = sc, r_height = kh\<rparr>) ks"
proof (induction ks arbitrary: acc c m)
  case Nil
  show ?case by simp
next
  case (Cons k ks)
  obtain a b d e where k: "k = (a, b, d, e)" by (cases k)
  show ?case using Cons.prems by (simp add: k Cons.IH)
qed

text \<open>
  C10. In \<^verbatim>\<open>txosByScriptId\<close> and in \<^verbatim>\<open>__txosListByScriptId\<close> with a scalar
  limit, a limit of 0 and a limit left out both behave as the limit 10000; so a scan
  asked for with limit 0 is not bounded to zero entries: it walks as many entries as
  the range holds, up to 10000. With limit 0, \<^verbatim>\<open>__txosListByScriptId\<close> counts and
  returns the first 10000 entries of the range, and the result map of
  \<^verbatim>\<open>txosByScriptId\<close> is keyed by the outpoints of the first 10000 entries of the
  range; on the store with five outputs of script 7 the zero-limit scan of
  \<^verbatim>\<open>txosByScriptId\<close> returns all five (and not the output of script 9).
\<close>

theorem zero_limit_is_default:
  "txosByScriptId ifault s sc h (Some 0) = txosByScriptId ifault s sc h (Some 10000)
   \<and> txosByScriptId ifault s sc h None = txosByScriptId ifault s sc h (Some 10000)
   \<and> txosListByScriptId ifault s sc h (Limit 0) = txosListByScriptId ifault s sc h (Limit 10000)
   \<and> txosListByScriptId ifault s sc h Omitted = txosListByScriptId ifault s sc h (Limit 10000)
   \<and> p_offset (snd (snd (txosListByScriptId None s sc h (Limit 0))))
       = int (min 10000 (length (db_range (scIndex s) (sc, h, ZERO64, 0)
                                   (Some (sc, 0xffffffff, ZERO64, 0)))))
   \<and> fst (snd (txosListByScriptId None s sc h (Limit 0)))
       = map (\<lambda>(ksc, kh, kt, kv). \<lparr>r_txId = kt, r_vout = kv, r_scId = sc, r_height = kh\<rparr>)
           (take 10000 (map fst (db_range (scIndex s) (sc, h, ZERO64, 0)
                                   (Some (sc, 0xffffffff, ZERO64, 0)))))
   \<and> fst (txosByScriptId None s sc h (Some 0)) = None
   \<and> Mapping.keys (snd (txosByScriptId None s sc h (Some 0)))
       = (\<lambda>(ksc, kh, kt, kv). (kt, kv)) `
           set (take 10000 (map fst (db_range (scIndex s) (sc, h, ZERO64, 0)
                                       (Some (sc, 0xffffffff, ZERO64, 0)))))
   \<and> Mapping.keys (snd (txosByScriptId None script_store 7 0 (Some 0)))
       = {(100, 0), (101, 0), (102, 0), (103, 0), (104, 0)}
   \<and> Mapping.lookup (snd (txosByScriptId None script_store 7 0 (Some 0))) (100, 0)
       = Some \<lparr>r_txId = 100, r_vout = 0, r_scId = 7, r_height = 10\<rparr>
   \<and> Mapping.lookup (snd (txosByScriptId None script_store 7 0 (Some 0))) (104, 0)
       = Some \<lparr>r_txId = 104, r_vout = 0, r_scId = 7, r_height = 50\<rparr>
   \<and> Mapping.lookup (snd (txosByScriptId None script_store 7 0 (Some 0))) (105, 0) = None"
proof -
  have eqs: "txosByScriptId ifault s sc h (Some 0) = txosByScriptId ifault s sc h (Some 10000)"
    "txosByScriptId ifault s sc h None = txosByScriptId ifault s sc h (Some 10000)"
    "txosListByScriptId ifault s sc h (Limit 0) = txosListByScriptId ifault s sc h (Limit 10000)"
    "txosListByScriptId ifault s sc h Omitted = txosListByScriptId ifault s sc h (Limit 10000)"
    by (simp_all add: txosByScriptId_def txosListByScriptId_def limit_count_def limit_offset_def
        or_10000_def)
  have cnt: "p_offset (snd (snd (txosListByScriptId None s sc h (Limit 0))))
       = int (min 10000 (length (db_range (scIndex s) (sc, h, ZERO64, 0)
                                   (Some (sc, 0xffffffff, ZERO64, 0)))))"
    by (simp add: txosListByScriptId_def db_iterator_def walk_def limit_count_def
        or_10000_def case_prod_unfold foldl_walk_count)
  have res: "fst (snd (txosListByScriptId None s sc h (Limit 0)))
       = map (\<lambda>(ksc, kh, kt, kv). \<lparr>r_txId = kt, r_vout = kv, r_scId = sc, r_height = kh\<rparr>)
           (take 10000 (map fst (db_range (scIndex s) (sc, h, ZERO64, 0)
                                   (Some (sc, 0xffffffff, ZERO64, 0)))))"
    by (simp add: txosListByScriptId_def db_iterator_def walk_def limit_count_def limit_offset_def
        or_10000_def case_prod_unfold foldl_walk_no_offset take_map)
  have noerr: "fst (txosByScriptId None s sc h (Some 0)) = None"
    by (simp add: txosByScriptId_def db_iterator_def)
  have keys: "Mapping.keys (snd (txosByScriptId None s sc h (Some 0)))
       = (\<lambda>(ksc, kh, kt, kv). (kt, kv)) `
           set (take 10000 (map fst (db_range (scIndex s) (sc, h, ZERO64, 0)
                                       (Some (sc, 0xffffffff, ZERO64, 0)))))"
    by (simp add: txosByScriptId_def db_iterator_def or_10000_def foldl_resultMap_keys take_map)
  have five: "Mapping.keys (snd (txosByScriptId None script_store 7 0 (Some 0)))
       = {(100, 0), (101, 0), (102, 0), (103, 0), (104, 0)}"
    by (auto simp: txosByScriptId_def db_iterator_def db_range_def or_10000_def ZERO64_def
        script_store_def empty_store_def)
  have rows: "Mapping.lookup (snd (txosByScriptId None script_store 7 0 (Some 0))) (100, 0)
       = Some \<lparr>r_txId = 100, r_vout = 0, r_scId = 7, r_height = 10\<rparr>"
    "Mapping.lookup (snd (txosByScriptId None script_store 7 0 (Some 0))) (104, 0)
       = Some \<lparr>r_txId = 104, r_vout = 0, r_scId = 7, r_height = 50\<rparr>"
    "Mapping.lookup (snd (txosByScriptId None script_store 7 0 (Some 0))) (105, 0) = None"
    by (simp_all add: txosByScriptId_def db_iterator_def db_range_def or_10000_def ZERO64_def
        script_store_def empty_store_def)
  show ?thesis
    using eqs cnt res noerr keys five rows by blast
qed

section \<open>The fee window needs a Tip\<close>

text \<open>
  C9. On a store with no Tip row, \<^verbatim>\<open>fees\<close> throws on reading the height of the
  absent row and never invokes its callback, whereas \<^verbatim>\<open>tip\<close> and
  \<^verbatim>\<open>tipHeight\<close> invoke theirs with no error and an absent value.
\<close>

theorem fees_without_tip:
  "Mapping.lookup (tipIndex s) () = None \<Longrightarrow>
   fees None ifault s n = TypeError \<and> tip None s = (None, None) \<and> tipHeight None s = (None, None)"
  by (simp add: fees_def tip_def tipHeight_def db_get_def)

theorem fees_without_tip_witness:
  "Mapping.lookup (tipIndex empty_store) () = None
   \<and> fees None None empty_store 3 = TypeError
   \<and> tip None empty_store = (None, None) \<and> tipHeight None empty_store = (None, None)"
proof -
  have a: "Mapping.lookup (tipIndex empty_store) () = None" by (simp add: empty_store_def)
  show ?thesis using a fees_without_tip [of empty_store None 3] by simp
qed

end
